theory Spec2Isabelle
  imports Complex_Main "HOL-Library.Word" "HOL-Library.Multiset"
begin

chapter \<open>The model\<close>

section \<open>Machine types\<close>

text \<open>
  The CUDA sources compute with \<^verbatim>\<open>unsigned int\<close> (32 bits, wraps around), \<^verbatim>\<open>size_t\<close>
  (64 bits, wraps around) and \<^verbatim>\<open>int\<close> (32 bits, read as signed by \<open>sint\<close>). The length of
  \<^verbatim>\<open>forall\<close> is the \<^verbatim>\<open>std::distance\<close> of two iterators, a signed 64-bit value
  (\<^verbatim>\<open>ptrdiff_t\<close>); it is kept as an \<^typ>\<open>int\<close> and its range is written out where it
  matters.
\<close>

type_synonym uint = "32 word"
type_synonym size_t = "64 word"
type_synonym cint = "32 word"

text \<open>\<^verbatim>\<open>dim3\<close>: three \<^verbatim>\<open>unsigned int\<close> fields \<^verbatim>\<open>x\<close>, \<^verbatim>\<open>y\<close>, \<^verbatim>\<open>z\<close>.\<close>

record dim3 =
  dim_x :: uint
  dim_y :: uint
  dim_z :: uint

text \<open>
  The constructor \<^verbatim>\<open>dim3(unsigned int vx = 1, unsigned int vy = 1, unsigned int vz = 1)\<close>
  is what converts a \<^verbatim>\<open>size_t\<close> to a \<^verbatim>\<open>dim3\<close>: the value is narrowed to 32 bits and
  the other two extents are 1.
\<close>

definition dim3_of_size_t :: "size_t \<Rightarrow> dim3" where
  "dim3_of_size_t v = \<lparr>dim_x = ucast v, dim_y = 1, dim_z = 1\<rparr>"

text \<open>
  What stops a call: a division by zero (a trap), a launch the device refuses (fatal, the
  process is aborted), and a C++ exception with its message.
\<close>

datatype error =
    DivisionByZero
  | LaunchIssueFailure
  | Thrown string

section \<open>Launch geometry: \<^verbatim>\<open>getGridDim\<close> (policy/cuda/forall.hpp)\<close>

text \<open>
  Modelled from the spec: the macro \<^verbatim>\<open>MAX_THREADS_PER_SM\<close>, declared outside the
  sources at hand, is the hardware's per-unit thread limit, a non-negative constant. It is
  a parameter of the model, together with the multiprocessor count that
  \<^verbatim>\<open>cudaDeviceGetAttribute\<close> reports for device 0.
\<close>

record cuda_device =
  MAX_THREADS_PER_SM :: uint
  multiProcessorCount :: cint

text \<open>
  \<^verbatim>\<open>getGridDim(size_t len, dim3 blockDim)\<close>. The function reads the number of
  multiprocessors of device 0 through a function-local static cache \<^verbatim>\<open>num_sm[0]\<close>,
  filled by \<^verbatim>\<open>cudaDeviceGetAttribute\<close> while the slot is 0; the cache slot is threaded
  through the model as state and returned beside the result.

  The product of the block extents is formed in \<^verbatim>\<open>unsigned int\<close> and then widened;
  the count is an \<^verbatim>\<open>int\<close>, converted to \<^verbatim>\<open>size_t\<close> with its sign; the two quotients
  are \<^verbatim>\<open>size_t\<close> divisions, and a zero divisor is a trap, not a 0; the minimum, a
  \<^verbatim>\<open>size_t\<close>, is returned as a \<^verbatim>\<open>dim3\<close>.
\<close>

definition getGridDim ::
  "cuda_device \<Rightarrow> cint \<Rightarrow> size_t \<Rightarrow> dim3 \<Rightarrow> (error + dim3) \<times> cint" where
  "getGridDim dev num_sm len blockDim =
     (let block_size = (ucast (dim_x blockDim * dim_y blockDim * dim_z blockDim) :: size_t);
          num_sm' = (if num_sm = 0 then multiProcessorCount dev else num_sm)
      in if block_size = 0 then (Inl DivisionByZero, num_sm')
         else
           let max_concurrent_blocks =
                 (scast num_sm' :: size_t) * (ucast (MAX_THREADS_PER_SM dev) div block_size);
               gridSizeMax = (len + block_size - 1) div block_size
           in (Inr (dim3_of_size_t (min gridSizeMax max_concurrent_blocks)), num_sm'))"

text \<open>
  The specification's wording of the same computation, on natural numbers:
  \<open>min(ceil(workLength / groupSize), computeUnits \<times> floor(perUnitThreadLimit / groupSize))\<close>.
\<close>

definition computeGridSize_spec :: "nat \<Rightarrow> nat \<Rightarrow> nat \<Rightarrow> nat \<Rightarrow> nat" where
  "computeGridSize_spec workLength groupSize computeUnits perUnitThreadLimit =
     min (nat \<lceil>real workLength / real groupSize\<rceil>)
         (computeUnits * (perUnitThreadLimit div groupSize))"

section \<open>The strided kernel: \<^verbatim>\<open>forall_cuda_kernel\<close> (policy/cuda/forall.hpp)\<close>

text \<open>
  The built-in variables one execution unit sees: the extents of the grid and of a block,
  and the unit's own block and thread coordinates.
\<close>

record cuda_builtins =
  gridDim :: dim3
  blockDim :: dim3
  blockIdx :: dim3
  threadIdx :: dim3










section \<open>\<^verbatim>\<open>forall\<close> over an iterable with \<^verbatim>\<open>cuda_exec<BlockSize, Async>\<close>\<close>

text \<open>
  Modelled from the spec: \<^verbatim>\<open>cuda::peekAtLastError\<close>, \<^verbatim>\<open>cuda::launch\<close> and
  \<^verbatim>\<open>cuda::synchronize\<close> are declared outside the sources at hand. Each call is an
  event of the host's dealings with the device, as is the issue of the kernel with its
  grid, its block and the length (the stream is always stream 0).
  \<^verbatim>\<open>peekAtLastError\<close> is the launch-issue check, and a launch the device refused is
  fatal there; whether the device accepts the launch is a parameter. The
  fault-tolerance macros \<^verbatim>\<open>RAJA_FT_BEGIN\<close> and \<^verbatim>\<open>RAJA_FT_END\<close> are taken as empty.
\<close>

datatype cuda_event =
    KernelIssue dim3 dim3 int
  | PeekAtLastError
  | Launch
  | Synchronize

text \<open>
  \<^verbatim>\<open>forall(cuda_exec<BlockSize, Async>, iter, loop_body)\<close>: \<^verbatim>\<open>len\<close> is the distance of
  the iterable's ends, \<^verbatim>\<open>BlockSize\<close> a \<^verbatim>\<open>size_t\<close>; both become arguments of
  \<^verbatim>\<open>getGridDim\<close> by conversion (\<^verbatim>\<open>len\<close> to \<^verbatim>\<open>size_t\<close>, \<^verbatim>\<open>BlockSize\<close> to \<^verbatim>\<open>dim3\<close>).
  The result: the events, the error that ended the call if any, and the cache slot.
\<close>

definition forall_cuda_exec ::
  "size_t \<Rightarrow> bool \<Rightarrow> cuda_device \<Rightarrow> bool \<Rightarrow> cint \<Rightarrow> int \<Rightarrow>
     cuda_event list \<times> error option \<times> cint" where
  "forall_cuda_exec BlockSize Async dev issue_ok num_sm len =
     (if 0 < len \<and> 0 < BlockSize then
        (case getGridDim dev num_sm (of_int len) (dim3_of_size_t BlockSize) of
           (Inl e, num_sm') \<Rightarrow> ([], Some e, num_sm')
         | (Inr gridSize, num_sm') \<Rightarrow>
             (let issued = [KernelIssue gridSize (dim3_of_size_t BlockSize) len, PeekAtLastError]
              in if issue_ok
                 then (issued @ [Launch] @ (if \<not> Async then [Synchronize] else []),
                       None, num_sm')
                 else (issued, Some LaunchIssueFailure, num_sm')))
      else ([], None, num_sm))"

section \<open>Teams: resources, context and launch (pattern/teams/teams_core.hpp)\<close>

text \<open>
  \<^verbatim>\<open>enum ExecPlace { HOST, DEVICE, NUM_PLACES }\<close>, in a build with a device back end
  (without one the enumerator \<^verbatim>\<open>DEVICE\<close> and its case do not exist).
\<close>

datatype ExecPlace = HOST | DEVICE | NUM_PLACES

text \<open>
  \<^verbatim>\<open>Teams\<close> and \<^verbatim>\<open>Threads\<close> hold \<^verbatim>\<open>int value[3]\<close>, \<^verbatim>\<open>Lanes\<close> holds \<^verbatim>\<open>int value\<close>. Each
  constructor overload is a definition, named by its number of arguments.
\<close>

record Teams =
  teams_value :: "cint list"

record Threads =
  threads_value :: "cint list"

record Lanes =
  lanes_value :: cint

definition Teams_0 :: Teams where
  "Teams_0 = \<lparr>teams_value = [1, 1, 1]\<rparr>"

definition Teams_1 :: "cint \<Rightarrow> Teams" where
  "Teams_1 i = \<lparr>teams_value = [i, 1, 1]\<rparr>"

definition Teams_2 :: "cint \<Rightarrow> cint \<Rightarrow> Teams" where
  "Teams_2 i j = \<lparr>teams_value = [i, j, 1]\<rparr>"

definition Teams_3 :: "cint \<Rightarrow> cint \<Rightarrow> cint \<Rightarrow> Teams" where
  "Teams_3 i j k = \<lparr>teams_value = [i, j, k]\<rparr>"

definition Threads_0 :: Threads where
  "Threads_0 = \<lparr>threads_value = [1, 1, 1]\<rparr>"

definition Threads_1 :: "cint \<Rightarrow> Threads" where
  "Threads_1 i = \<lparr>threads_value = [i, 1, 1]\<rparr>"

definition Threads_2 :: "cint \<Rightarrow> cint \<Rightarrow> Threads" where
  "Threads_2 i j = \<lparr>threads_value = [i, j, 1]\<rparr>"

definition Threads_3 :: "cint \<Rightarrow> cint \<Rightarrow> cint \<Rightarrow> Threads" where
  "Threads_3 i j k = \<lparr>threads_value = [i, j, k]\<rparr>"

definition Lanes_0 :: Lanes where
  "Lanes_0 = \<lparr>lanes_value = 0\<rparr>"

definition Lanes_1 :: "cint \<Rightarrow> Lanes" where
  "Lanes_1 i = \<lparr>lanes_value = i\<rparr>"

record Resources =
  teams :: Teams
  threads :: Threads
  lanes :: Lanes

text \<open>
  \<^verbatim>\<open>Resources() = default\<close> default-constructs the three members;
  \<^verbatim>\<open>Resources(Teams in_teams, Threads in_threads)\<close> initialises two and
  default-constructs \<^verbatim>\<open>lanes\<close>.
\<close>

definition Resources_0 :: Resources where
  "Resources_0 = \<lparr>teams = Teams_0, threads = Threads_0, lanes = Lanes_0\<rparr>"

definition Resources_2 :: "Teams \<Rightarrow> Threads \<Rightarrow> Resources" where
  "Resources_2 in_teams in_threads =
     \<lparr>teams = in_teams, threads = in_threads, lanes = Lanes_0\<rparr>"

text \<open>\<^verbatim>\<open>class LaunchContext : public Resources\<close> with the member \<^verbatim>\<open>exec_place\<close>.\<close>

record LaunchContext = Resources +
  exec_place :: ExecPlace

text \<open>
  The constructor \<^verbatim>\<open>LaunchContext(Resources const &base, ExecPlace place)\<close> copies the
  base and stores the place.
\<close>

definition LaunchContext_ctor :: "Resources \<Rightarrow> ExecPlace \<Rightarrow> LaunchContext" where
  "LaunchContext_ctor base place =
     \<lparr>teams = teams base, threads = threads base, lanes = lanes base, exec_place = place\<rparr>"

text \<open>
  \<^verbatim>\<open>teamSync\<close>: its body is \<^verbatim>\<open>__syncthreads()\<close> where \<^verbatim>\<open>RAJA_DEVICE_CODE\<close> is defined
  (the device compilation of the function) and empty otherwise (the host compilation).
  The compilation is a flag of the model; the barrier is the hardware's, a parameter that
  acts on the rest of the program state and may block for ever (\<open>None\<close>).
\<close>

definition teamSync ::
  "bool \<Rightarrow> ('s \<Rightarrow> 's option) \<Rightarrow> LaunchContext \<times> 's \<Rightarrow> (LaunchContext \<times> 's) option" where
  "teamSync RAJA_DEVICE_CODE syncthreads cs =
     (if RAJA_DEVICE_CODE
      then (case syncthreads (snd cs) of None \<Rightarrow> None | Some s' \<Rightarrow> Some (fst cs, s'))
      else Some cs)"

text \<open>A run of \<open>n\<close> calls of \<^verbatim>\<open>teamSync\<close>, one after the other.\<close>

primrec teamSync_times ::
  "nat \<Rightarrow> bool \<Rightarrow> ('s \<Rightarrow> 's option) \<Rightarrow> LaunchContext \<times> 's \<Rightarrow> (LaunchContext \<times> 's) option"
where
  "teamSync_times 0 RAJA_DEVICE_CODE syncthreads cs = Some cs"
| "teamSync_times (Suc n) RAJA_DEVICE_CODE syncthreads cs =
     (case teamSync RAJA_DEVICE_CODE syncthreads cs of
        None \<Rightarrow> None
      | Some cs' \<Rightarrow> teamSync_times n RAJA_DEVICE_CODE syncthreads cs')"

text \<open>
  Modelled from the spec: the launch strategies are missing from the sources at hand. On
  host the body is called directly, as host code; on device it runs once per execution
  unit inside the generated kernel, as device code. So the place of a context tells which
  compilation of \<^verbatim>\<open>teamSync\<close> the body calls.
\<close>

definition device_code_at :: "ExecPlace \<Rightarrow> bool" where
  "device_code_at place = (place = DEVICE)"

text \<open>
  \<^verbatim>\<open>launch<POLICY_LIST>(place, team_resources, body)\<close>. The executors
  \<^verbatim>\<open>LaunchExecute<host_policy_t>::exec\<close> and \<^verbatim>\<open>LaunchExecute<device_policy_t>::exec\<close>
  are only declared in the sources at hand: they are parameters, functions of the
  context, the body and the program state. The result is the exception that left the
  call, if any, and the program state.
\<close>

definition launch ::
  "(LaunchContext \<Rightarrow> 'b \<Rightarrow> 's \<Rightarrow> 's) \<Rightarrow> (LaunchContext \<Rightarrow> 'b \<Rightarrow> 's \<Rightarrow> 's) \<Rightarrow>
     ExecPlace \<Rightarrow> Resources \<Rightarrow> 'b \<Rightarrow> 's \<Rightarrow> error option \<times> 's" where
  "launch host_exec device_exec place team_resources body s =
     (case place of
        HOST \<Rightarrow> (None, host_exec (LaunchContext_ctor team_resources HOST) body s)
      | DEVICE \<Rightarrow> (None, device_exec (LaunchContext_ctor team_resources DEVICE) body s)
      | _ \<Rightarrow> (Some (Thrown ''unknown launch place!''), s))"

text \<open>
  Modelled from the spec: the host launch strategy, missing from the sources at hand,
  invokes \<open>body(context)\<close> by "a direct call".
\<close>

definition host_direct_exec :: "LaunchContext \<Rightarrow> (LaunchContext \<Rightarrow> 's \<Rightarrow> 's) \<Rightarrow> 's \<Rightarrow> 's" where
  "host_direct_exec ctx body s = body ctx s"

section \<open>The policy-index multiplexer: \<^verbatim>\<open>KernelPolicyGeneratorSingle\<close>\<close>

text \<open>
  A kernel policy is represented by the type of its first statement
  (\<^verbatim>\<open>camp::at_v<ExecutionPolicy, 0>\<close>), which selects the specialisation of the two
  hooks: the one for \<^verbatim>\<open>RAJA::statement::CudaKernelAsync\<close> or the general one.
\<close>

datatype stmt_t = CudaKernelAsync | OtherStatement

text \<open>
  What the multiplexer does, in order: the hooks' calls into the instrumentation and the
  CUDA runtime, and the run of \<^verbatim>\<open>RAJA::kernel\<close> with the policy at an index.
\<close>

datatype apollo_event =
    CallbackPoolGet
  | SetIsDoneCallback
  | CudaEventRecordStart
  | CudaEventRecordStop
  | RegionEnd
  | RunKernel nat

fun PreLaunchKernel_exec :: "stmt_t \<Rightarrow> apollo_event list" where
  "PreLaunchKernel_exec CudaKernelAsync =
     [CallbackPoolGet, SetIsDoneCallback, CudaEventRecordStart]"
| "PreLaunchKernel_exec OtherStatement = []"

fun PostLaunchKernel_exec :: "stmt_t \<Rightarrow> apollo_event list" where
  "PostLaunchKernel_exec CudaKernelAsync = [CudaEventRecordStop, RegionEnd]"
| "PostLaunchKernel_exec OtherStatement = [RegionEnd]"

text \<open>
  \<^verbatim>\<open>KernelPolicyGeneratorSingle<idx, num_policies, KernelPolicyList, ...>::generate\<close>:
  the template recursion from \<^verbatim>\<open>idx\<close> up to the specialisation at
  \<^verbatim>\<open>idx == num_policies\<close>, whose body is empty. The selector \<^verbatim>\<open>policy\<close> is an \<^verbatim>\<open>int\<close>,
  compared with the index. The recursion is entered at 0, so \<^verbatim>\<open>idx\<close> never exceeds
  \<^verbatim>\<open>num_policies\<close>; the model stops there as well.
\<close>

function KernelPolicyGeneratorSingle_generate ::
  "nat \<Rightarrow> nat \<Rightarrow> stmt_t list \<Rightarrow> int \<Rightarrow> apollo_event list" where
  "KernelPolicyGeneratorSingle_generate idx num_policies KernelPolicyList policy =
     (if num_policies \<le> idx then []
      else
        let stmt = KernelPolicyList ! idx in
        if policy = int idx
        then PreLaunchKernel_exec stmt @ [RunKernel idx] @ PostLaunchKernel_exec stmt
        else KernelPolicyGeneratorSingle_generate (idx + 1) num_policies KernelPolicyList policy)"
  by pat_completeness auto
termination
  by (relation "measure (\<lambda>(idx, num_policies, _, _). num_policies - idx)") auto

text \<open>\<^verbatim>\<open>KernelPolicyGenerator\<close>: the entry, at index 0 with the length of the list.\<close>

definition KernelPolicyGenerator :: "stmt_t list \<Rightarrow> int \<Rightarrow> apollo_event list" where
  "KernelPolicyGenerator KernelPolicyList policy =
     KernelPolicyGeneratorSingle_generate 0 (length KernelPolicyList) KernelPolicyList policy"

section \<open>OpenMP: sum reduction and hybrid index sets (forall\_omp\_any.hxx)\<close>



text \<open>
  A segment of a hybrid index set: the type tag \<^verbatim>\<open>m_type\<close> together with the index set
  \<^verbatim>\<open>m_segment\<close> points to, as one tagged value. The enumeration of the tags is declared
  outside the sources at hand; the source names \<^verbatim>\<open>_Range_\<close>, \<^verbatim>\<open>_RangeStride_\<close> and
  \<^verbatim>\<open>_Unstructured_\<close>, and any other tag is \<open>Other_seg\<close> with its number.
\<close>

datatype Segment =
    Range_seg int int
  | RangeStride_seg int int int
  | Unstructured_seg "int list"
  | Other_seg nat

text \<open>
  The segment loops of this file, \<^verbatim>\<open>forall(omp_parallel_for_exec, const RangeISet&, ...)\<close>
  and \<^verbatim>\<open>forall(omp_parallel_for_exec, const UnstructuredISet&, ...)\<close>: the indices the
  body is called with, in the order of the loop (a parallel loop makes the same calls,
  interleaved).
\<close>

definition forall_RangeISet :: "int \<Rightarrow> int \<Rightarrow> int list" where
  "forall_RangeISet ibegin iend = [ibegin..iend - 1]"

definition forall_UnstructuredISet :: "int list \<Rightarrow> int list" where
  "forall_UnstructuredISet idx = map (\<lambda>k. idx ! k) [0..<length idx]"

text \<open>
  \<^verbatim>\<open>forall(std::pair<omp_parallel_for_segit, SEG_EXEC_POLICY_T>, const HybridISet&, ...)\<close>:
  the switch on the tag of one segment, with its empty \<^verbatim>\<open>default\<close> (the case of
  \<^verbatim>\<open>_RangeStride_\<close> is compiled out by \<^verbatim>\<open>#if 0\<close>), and the loop over the segments.
\<close>

fun forall_segment :: "Segment \<Rightarrow> int list" where
  "forall_segment (Range_seg ibegin iend) = forall_RangeISet ibegin iend"
| "forall_segment (Unstructured_seg idx) = forall_UnstructuredISet idx"
| "forall_segment _ = []"

definition forall_HybridISet :: "Segment list \<Rightarrow> int list" where
  "forall_HybridISet segs =
     concat (map (\<lambda>isi. forall_segment (segs ! isi)) [0..<length segs])"

text \<open>A segment whose tag is the range type or the unstructured type.\<close>

fun recognized :: "Segment \<Rightarrow> bool" where
  "recognized (Range_seg _ _) = True"
| "recognized (Unstructured_seg _) = True"
| "recognized _ = False"

chapter \<open>Properties\<close>

section \<open>Arithmetic of the machine types\<close>


lemma ceil_div_cases:
  assumes "0 < (d::nat)"
  shows "(n + d - 1) div d = (if n mod d = 0 then n div d else n div d + 1)"
proof -
  define q where "q = n div d"
  define r where "r = n mod d"
  define e where "e = d - 1"
  have n: "n = r + q * d" by (simp add: q_def r_def)
  have rd: "r < d" using assms by (simp add: r_def)
  have ed: "e < d" using assms by (simp add: e_def)
  have lhs: "n + d - 1 = n + e" using assms by (simp add: e_def)
  have dm: "(a + b * d) div d = a div d + b" for a b using assms by simp
  show ?thesis
  proof (cases "r = 0")
    case True
    have "(n + e) div d = (e + q * d) div d" using n True by (simp add: add.commute)
    also have "\<dots> = q" using ed by (simp only: dm div_less)
    finally show ?thesis using True lhs by (simp add: q_def r_def)
  next
    case False
    then obtain r' where r': "r = Suc r'" by (cases r) auto
    have dS: "d = Suc e" using assms by (simp add: e_def)
    have "n + e = r + e + q * d" using n by simp
    also have "\<dots> = r' + d + q * d" using r' dS by simp
    also have "\<dots> = r' + (q + 1) * d" by simp
    finally have "n + e = r' + (q + 1) * d" .
    then have "(n + e) div d = r' div d + (q + 1)" by (simp only: dm)
    moreover have "r' div d = 0" using rd r' by simp
    ultimately show ?thesis using False lhs by (simp add: q_def r_def)
  qed
qed



lemma unat_scast_nonneg:
  assumes "0 \<le> sint (w::'a::len word)" "LENGTH('a) \<le> LENGTH('b::len)"
  shows "unat (scast w :: 'b word) = nat (sint w)"
proof -
  have "sint w < 2 ^ (LENGTH('a) - 1)" by (rule sint_lt)
  also have "\<dots> \<le> (2::int) ^ LENGTH('b)" by (rule power_increasing) (use assms in auto)
  finally have b: "sint w < 2 ^ LENGTH('b)" .
  have "uint (scast w :: 'b word) = sint w mod 2 ^ LENGTH('b)" by (simp only: scast_eq uint_word_of_int)
  also have "\<dots> = sint w" using assms(1) b by (rule mod_pos_pos_trivial)
  finally show ?thesis by (simp only: unat_eq_nat_uint)
qed

lemma unat_ucast_up:
  assumes "LENGTH('a) \<le> LENGTH('b)"
  shows "unat (ucast (w::'a::len word) :: 'b::len word) = unat w"
proof -
  have "unat w < 2 ^ LENGTH('a)" by (rule unsigned_less)
  also have "\<dots> \<le> (2::nat) ^ LENGTH('b)" by (rule power_increasing) (use assms in auto)
  finally have "unat w < 2 ^ LENGTH('b)" .
  then show ?thesis by (simp only: unsigned_ucast_eq take_bit_nat_eq_self)
qed

lemma unat_ucast_down:
  assumes "unat w < 2 ^ LENGTH('b)"
  shows "unat (ucast (w::'a::len word) :: 'b::len word) = unat w"
  using assms by (simp only: unsigned_ucast_eq take_bit_nat_eq_self)

lemma unat_word_min: "unat (min a b) = min (unat a) (unat b)"
  by (simp add: min_def word_le_nat_alt)

lemma unat_of_nat_word: "n < 2 ^ LENGTH('a) \<Longrightarrow> unat (of_nat n :: 'a::len word) = n"
  by (simp only: unat_of_nat mod_less)


lemma ceiling_div_nat:
  assumes "0 < d"
  shows "nat \<lceil>real n / real d\<rceil> = (n + d - 1) div d"
proof -
  have "\<lceil>real n / real d\<rceil> = \<lceil>of_int (int n) / (of_int (int d) :: real)\<rceil>" by simp
  also have "\<dots> = - (- int n div int d)" by (rule ceiling_divide_eq_div)
  also have "\<dots> = (if int n mod int d = 0 then int n div int d else int n div int d + 1)"
    using assms by (simp add: zdiv_zminus1_eq_if)
  also have "\<dots> = int (if n mod d = 0 then n div d else n div d + 1)"
  proof -
    have m: "(int n mod int d = 0) = (n mod d = 0)" by (simp flip: of_nat_mod)
    show ?thesis unfolding m by (simp add: of_nat_div)
  qed
  finally have "\<lceil>real n / real d\<rceil> = int ((n + d - 1) div d)"
    by (simp only: ceil_div_cases[OF assms])
  then show ?thesis by (simp only: nat_int)
qed

lemma getGridDim_value:
  fixes dev :: cuda_device and num_sm :: cint and len :: size_t and bx "by" bz :: uint
  defines "eff \<equiv> (if num_sm = 0 then multiProcessorCount dev else num_sm)"
  defines "bs \<equiv> unat bx * unat by * unat bz"
  defines "L \<equiv> unat (MAX_THREADS_PER_SM dev)"
  defines "S \<equiv> nat (sint eff)"
  assumes bs: "0 < bs" "bs \<le> L"
      and sm: "0 < sint eff"
      and nowrap: "unat len + bs - 1 < 2 ^ 64"
      and fits: "min ((unat len + bs - 1) div bs) (S * (L div bs)) < 2 ^ 32"
  shows "getGridDim dev num_sm len \<lparr>dim_x = bx, dim_y = by, dim_z = bz\<rparr> =
           (Inr \<lparr>dim_x = of_nat (min ((unat len + bs - 1) div bs) (S * (L div bs))), dim_y = 1, dim_z = 1\<rparr>, eff)"
proof -
  have L32: "L < 2 ^ 32" using unsigned_less[of "MAX_THREADS_PER_SM dev"] by (simp add: L_def)
  have bs32: "bs < 2 ^ 32" using bs L32 by simp
  have xy: "unat bx * unat by < 2 ^ 32"
  proof -
    have "unat bx * unat by \<le> bs" using bs by (cases "unat bz") (simp_all add: bs_def)
    then show ?thesis using bs32 by simp
  qed
  have uxy: "unat (bx * by) = unat bx * unat by"
    using xy unat_mult_lem[of bx "by"] by simp
  have uxyz: "unat (bx * by * bz) = bs"
    using bs32 uxy unat_mult_lem[of "bx * by" bz] by (simp add: bs_def)
  define block_size :: size_t where "block_size = ucast (bx * by * bz)"
  have ubs: "unat block_size = bs"
    unfolding block_size_def by (subst unat_ucast_up) (simp_all add: uxyz)
  have bs0: "block_size \<noteq> 0" using bs ubs by auto
  define q :: size_t where "q = ucast (MAX_THREADS_PER_SM dev) div block_size"
  have uq: "unat q = L div bs"
    unfolding q_def unat_div ubs L_def by (subst unat_ucast_up) simp_all
  have uS: "unat (scast eff :: size_t) = S"
    unfolding S_def using sm by (subst unat_scast_nonneg) simp_all
  have fits64: "S * (L div bs) < 2 ^ 64"
  proof -
    have "sint eff < 2 ^ (LENGTH(32) - 1)" by (rule sint_lt)
    then have S31: "S \<le> 2 ^ 31" using sm by (simp add: S_def)
    have "L div bs \<le> L" by (rule div_le_dividend)
    then have q32: "L div bs \<le> 2 ^ 32" using L32 by linarith
    from S31 q32 have "S * (L div bs) \<le> 2 ^ 31 * 2 ^ 32" by (rule mult_le_mono)
    also have "\<dots> < (2::nat) ^ 64" by simp
    finally show ?thesis .
  qed
  define mcb :: size_t where "mcb = scast eff * q"
  have umax: "unat mcb = S * (L div bs)"
    unfolding mcb_def using fits64 unat_mult_lem[of "scast eff :: size_t" q] by (simp add: uS uq)
  have one_le: "1 \<le> unat len + bs" using bs by simp
  have um1: "unat (block_size - 1) = bs - 1"
    using unat_minus_one[OF bs0] by (simp only: ubs)
  have uadd: "unat (len + (block_size - 1)) = unat len + (bs - 1)"
  proof -
    have "unat len + unat (block_size - 1) < 2 ^ LENGTH(64)"
      using nowrap bs by (simp add: um1)
    then show ?thesis by (simp only: unat_add_lem[THEN iffD1] um1)
  qed
  have regroup: "len + block_size - 1 = len + (block_size - 1)" by simp
  define gsm :: size_t where "gsm = (len + block_size - 1) div block_size"
  have ugm: "unat gsm = (unat len + bs - 1) div bs"
    unfolding gsm_def regroup unat_div uadd ubs using bs by simp
  have umin: "unat (min gsm mcb) = min ((unat len + bs - 1) div bs) (S * (L div bs))"
    by (simp only: unat_word_min ugm umax)
  define m where "m = min ((unat len + bs - 1) div bs) (S * (L div bs))"
  have m32: "m < 2 ^ LENGTH(32)" using fits by (simp add: m_def)
  have "unat (ucast (min gsm mcb) :: uint) = m"
    using m32 by (subst unat_ucast_down) (simp_all only: umin m_def)
  also have "\<dots> = unat (of_nat m :: uint)"
    using m32 by (simp only: unat_of_nat_word)
  finally have res: "(ucast (min gsm mcb) :: uint) = of_nat (min ((unat len + bs - 1) div bs) (S * (L div bs)))"
    by (simp only: word_unat_eq_iff m_def)
  show ?thesis
    unfolding getGridDim_def Let_def dim3_of_size_t_def
    using bs0 res
    by (simp add: block_size_def[symmetric] q_def[symmetric] mcb_def[symmetric] gsm_def[symmetric] eff_def[symmetric])
qed

lemma ucast_size_t_nonzero:
  fixes w :: uint
  assumes "w \<noteq> 0"
  shows "(ucast w :: size_t) \<noteq> 0"
proof
  assume "(ucast w :: size_t) = 0"
  then have "unat (ucast w :: size_t) = 0" by simp
  then have "unat w = 0" by (simp add: unat_ucast_up)
  with assms show False by (simp add: unat_eq_zero)
qed

lemma getGridDim_Inr:
  assumes "dim_x b * dim_y b * dim_z b \<noteq> 0"
  shows "\<exists>g. fst (getGridDim dev num_sm len b) = Inr g"
  using ucast_size_t_nonzero[OF assms] by (simp add: getGridDim_def Let_def)

section \<open>Splitting a sum by a key\<close>


section \<open>The strided loop of one unit and the units of a launch\<close>











section \<open>The multiplexer from any index\<close>

lemma generate_from:
  "idx \<le> num_policies \<Longrightarrow>
   KernelPolicyGeneratorSingle_generate idx num_policies KernelPolicyList policy =
     (if int idx \<le> policy \<and> policy < int num_policies
      then PreLaunchKernel_exec (KernelPolicyList ! nat policy) @ [RunKernel (nat policy)]
             @ PostLaunchKernel_exec (KernelPolicyList ! nat policy)
      else [])"
proof (induction idx num_policies KernelPolicyList policy
        rule: KernelPolicyGeneratorSingle_generate.induct)
  case (1 idx num_policies KernelPolicyList policy)
  show ?case
  proof (cases "num_policies \<le> idx")
    case True
    then show ?thesis by (subst KernelPolicyGeneratorSingle_generate.simps) simp
  next
    case False
    show ?thesis
    proof (cases "policy = int idx")
      case True
      with False show ?thesis
        by (subst KernelPolicyGeneratorSingle_generate.simps) (simp add: Let_def)
    next
      case neq: False
      have "KernelPolicyGeneratorSingle_generate idx num_policies KernelPolicyList policy =
            KernelPolicyGeneratorSingle_generate (idx + 1) num_policies KernelPolicyList policy"
        using False neq by (subst KernelPolicyGeneratorSingle_generate.simps) (simp add: Let_def)
      also have "\<dots> = (if int (idx + 1) \<le> policy \<and> policy < int num_policies
          then PreLaunchKernel_exec (KernelPolicyList ! nat policy) @ [RunKernel (nat policy)]
                 @ PostLaunchKernel_exec (KernelPolicyList ! nat policy)
          else [])"
        using False neq by (intro "1.IH") simp_all
      finally show ?thesis using neq by auto
    qed
  qed
qed

section \<open>The slots of the sum reduction and the loop over segments\<close>






lemma forall_HybridISet_concat:
  "forall_HybridISet segs = concat (map forall_segment segs)"
proof -
  have "map (\<lambda>isi. forall_segment (segs ! isi)) [0..<length segs]
          = map forall_segment (map ((!) segs) [0..<length segs])"
    by (simp add: comp_def)
  also have "\<dots> = map forall_segment segs" by (simp only: map_nth)
  finally show ?thesis by (simp only: forall_HybridISet_def)
qed


chapter \<open>The claims\<close>




text \<open>
  Claim C2, as amended. For every work length \<open>N > 0\<close> and block shape whose product
  \<open>groupSize\<close> is positive and at most the per-unit thread limit, with at least one
  compute unit, and with \<open>N + groupSize - 1\<close> below \<open>2\<^sup>6\<^sup>4\<close> and
  \<open>result = min(ceil(N / groupSize), maxConcurrentGroups)\<close> below \<open>2\<^sup>3\<^sup>2\<close> (the widths
  of \<^verbatim>\<open>size_t\<close> and of a grid extent), where
  \<open>maxConcurrentGroups = computeUnits \<times> floor(perUnitThreadLimit / groupSize)\<close>:
  \<^verbatim>\<open>getGridDim\<close> returns the grid \<open>(result, 1, 1)\<close>, and
  \<open>1 \<le> result \<le> maxConcurrentGroups\<close>. The compute-unit count is the cached
  one, or the device's when the cache slot is still 0, and it is what the cache holds
  afterwards.
\<close>

theorem getGridDim_computeGridSize:
  fixes dev :: cuda_device and num_sm :: cint and len :: size_t and x y z :: uint
  defines "eff \<equiv> (if num_sm = 0 then multiProcessorCount dev else num_sm)"
  defines "groupSize \<equiv> unat x * unat y * unat z"
  defines "perUnitThreadLimit \<equiv> unat (MAX_THREADS_PER_SM dev)"
  defines "computeUnits \<equiv> nat (sint eff)"
  defines "maxConcurrentGroups \<equiv> computeUnits * (perUnitThreadLimit div groupSize)"
  defines "result \<equiv> computeGridSize_spec (unat len) groupSize computeUnits perUnitThreadLimit"
  assumes N: "0 < unat len"
      and bs: "0 < groupSize" "groupSize \<le> perUnitThreadLimit"
      and sm: "0 < sint eff"
      and nowrap: "unat len + groupSize - 1 < 2 ^ 64"
      and fits: "result < 2 ^ 32"
  shows "getGridDim dev num_sm len \<lparr>dim_x = x, dim_y = y, dim_z = z\<rparr> =
           (Inr \<lparr>dim_x = of_nat result, dim_y = 1, dim_z = 1\<rparr>, eff) \<and>
         unat (of_nat result :: uint) = result \<and>
         1 \<le> result \<and> result \<le> maxConcurrentGroups"
proof -
  have ceil: "nat \<lceil>real (unat len) / real groupSize\<rceil> = (unat len + groupSize - 1) div groupSize"
    using bs(1) by (rule ceiling_div_nat)
  have res: "result = min ((unat len + groupSize - 1) div groupSize) maxConcurrentGroups"
    by (simp only: result_def computeGridSize_spec_def ceil maxConcurrentGroups_def)
  have v: "getGridDim dev num_sm len \<lparr>dim_x = x, dim_y = y, dim_z = z\<rparr> =
           (Inr \<lparr>dim_x = of_nat result, dim_y = 1, dim_z = 1\<rparr>, eff)"
    unfolding res maxConcurrentGroups_def computeUnits_def perUnitThreadLimit_def groupSize_def eff_def
    using bs sm nowrap fits
    unfolding res maxConcurrentGroups_def computeUnits_def perUnitThreadLimit_def groupSize_def eff_def
    by (rule getGridDim_value)
  have le: "result \<le> maxConcurrentGroups" by (simp add: res)
  have "result < 2 ^ LENGTH(32)" using fits by simp
  then have u: "unat (of_nat result :: uint) = result" by (rule unat_of_nat_word)
  have "groupSize \<le> unat len + groupSize - 1" using N by simp
  then have "groupSize div groupSize \<le> (unat len + groupSize - 1) div groupSize"
    by (rule div_le_mono)
  then have c1: "1 \<le> (unat len + groupSize - 1) div groupSize" using bs(1) by simp
  have "perUnitThreadLimit div groupSize \<ge> groupSize div groupSize"
    using bs(2) by (rule div_le_mono)
  then have "1 \<le> perUnitThreadLimit div groupSize" using bs(1) by simp
  moreover have "1 \<le> computeUnits" using sm by (simp add: computeUnits_def)
  ultimately have "1 * 1 \<le> computeUnits * (perUnitThreadLimit div groupSize)"
    by (intro mult_le_mono)
  then have c2: "1 \<le> maxConcurrentGroups" by (simp add: maxConcurrentGroups_def)
  from v u le c1 c2 show ?thesis by (simp add: res)
qed

text \<open>
  The scenario of the specification: \<open>N = 1000\<close>, block shape \<open>(256, 1, 1)\<close>, 20
  compute units and a per-unit thread limit of 2048 give 4 groups, with
  \<open>maxConcurrentGroups = 160\<close>.
\<close>

theorem getGridDim_computeGridSize_witness:
  "getGridDim \<lparr>MAX_THREADS_PER_SM = 2048, multiProcessorCount = 20\<rparr> 0 1000
              \<lparr>dim_x = 256, dim_y = 1, dim_z = 1\<rparr>
     = (Inr \<lparr>dim_x = 4, dim_y = 1, dim_z = 1\<rparr>, 20) \<and>
   computeGridSize_spec 1000 256 20 2048 = 4 \<and>
   20 * (2048 div 256) = (160::nat)"
proof -
  have c: "computeGridSize_spec 1000 256 20 2048 = 4"
    by (simp add: computeGridSize_spec_def ceiling_div_nat)
  show ?thesis
    using getGridDim_computeGridSize
      [where len = 1000 and x = 256 and y = 1 and z = 1 and num_sm = 0
         and dev = "\<lparr>MAX_THREADS_PER_SM = 2048, multiProcessorCount = 20\<rparr>"]
    by (simp add: c)
qed

text \<open>
  The claim as it is stated, for every block shape with a positive product, fails:
  a block of 4096 threads exceeds the limit of 2048, \<open>maxConcurrentGroups\<close> is 0 and
  so is the returned extent, which is not in \<open>[1, maxConcurrentGroups]\<close>. The other
  conjuncts show what each remaining condition excludes: a device reporting no compute
  unit; a shape \<open>(65536, 65536, 1)\<close> whose product is positive and wraps around to 0
  in \<^verbatim>\<open>unsigned int\<close>, so that the division traps; a length for which
  \<open>len + block_size\<close> wraps around in \<^verbatim>\<open>size_t\<close>; and a result of \<open>2\<^sup>3\<^sup>2\<close>, narrowed to 0
  as a grid extent.
\<close>

theorem getGridDim_range_counterexample:
  "getGridDim \<lparr>MAX_THREADS_PER_SM = 2048, multiProcessorCount = 20\<rparr> 0 1
              \<lparr>dim_x = 4096, dim_y = 1, dim_z = 1\<rparr>
     = (Inr \<lparr>dim_x = 0, dim_y = 1, dim_z = 1\<rparr>, 20) \<and>
   computeGridSize_spec 1 4096 20 2048 = 0 \<and>
   getGridDim \<lparr>MAX_THREADS_PER_SM = 2048, multiProcessorCount = 0\<rparr> 0 1000
              \<lparr>dim_x = 256, dim_y = 1, dim_z = 1\<rparr>
     = (Inr \<lparr>dim_x = 0, dim_y = 1, dim_z = 1\<rparr>, 0) \<and>
   getGridDim \<lparr>MAX_THREADS_PER_SM = 2048, multiProcessorCount = 20\<rparr> 0 1000
              \<lparr>dim_x = 65536, dim_y = 65536, dim_z = 1\<rparr>
     = (Inl DivisionByZero, 20) \<and>
   getGridDim \<lparr>MAX_THREADS_PER_SM = 2048, multiProcessorCount = 20\<rparr> 0 18446744073709551615
              \<lparr>dim_x = 2, dim_y = 1, dim_z = 1\<rparr>
     = (Inr \<lparr>dim_x = 0, dim_y = 1, dim_z = 1\<rparr>, 20) \<and>
   computeGridSize_spec 18446744073709551615 2 20 2048 = 20480 \<and>
   getGridDim \<lparr>MAX_THREADS_PER_SM = 2048, multiProcessorCount = 2097152\<rparr> 0 4294967296
              \<lparr>dim_x = 1, dim_y = 1, dim_z = 1\<rparr>
     = (Inr \<lparr>dim_x = 0, dim_y = 1, dim_z = 1\<rparr>, 2097152) \<and>
   computeGridSize_spec 4294967296 1 2097152 2048 = 4294967296"
proof -
  have code: "getGridDim \<lparr>MAX_THREADS_PER_SM = 2048, multiProcessorCount = 20\<rparr> 0 1
              \<lparr>dim_x = 4096, dim_y = 1, dim_z = 1\<rparr>
     = (Inr \<lparr>dim_x = 0, dim_y = 1, dim_z = 1\<rparr>, 20) \<and>
   getGridDim \<lparr>MAX_THREADS_PER_SM = 2048, multiProcessorCount = 0\<rparr> 0 1000
              \<lparr>dim_x = 256, dim_y = 1, dim_z = 1\<rparr>
     = (Inr \<lparr>dim_x = 0, dim_y = 1, dim_z = 1\<rparr>, 0) \<and>
   getGridDim \<lparr>MAX_THREADS_PER_SM = 2048, multiProcessorCount = 20\<rparr> 0 1000
              \<lparr>dim_x = 65536, dim_y = 65536, dim_z = 1\<rparr>
     = (Inl DivisionByZero, 20) \<and>
   getGridDim \<lparr>MAX_THREADS_PER_SM = 2048, multiProcessorCount = 20\<rparr> 0 18446744073709551615
              \<lparr>dim_x = 2, dim_y = 1, dim_z = 1\<rparr>
     = (Inr \<lparr>dim_x = 0, dim_y = 1, dim_z = 1\<rparr>, 20) \<and>
   getGridDim \<lparr>MAX_THREADS_PER_SM = 2048, multiProcessorCount = 2097152\<rparr> 0 4294967296
              \<lparr>dim_x = 1, dim_y = 1, dim_z = 1\<rparr>
     = (Inr \<lparr>dim_x = 0, dim_y = 1, dim_z = 1\<rparr>, 2097152)"
    by (simp add: getGridDim_def dim3_of_size_t_def Let_def)
  have spec: "computeGridSize_spec 1 4096 20 2048 = 0 \<and>
      computeGridSize_spec 18446744073709551615 2 20 2048 = 20480 \<and>
      computeGridSize_spec 4294967296 1 2097152 2048 = 4294967296"
    by (simp add: computeGridSize_spec_def ceiling_div_nat)
  from code spec show ?thesis by simp
qed

text \<open>
  Claim C3. For every iterable whose length is at most 0, and for every block size of 0,
  \<^verbatim>\<open>forall\<close> with \<^verbatim>\<open>cuda_exec\<close> issues no kernel and performs no synchronisation: there
  is no event at all, the call returns without an error, and the cache of the
  compute-unit count is left as it was.
\<close>

theorem forall_cuda_exec_degenerate:
  "len \<le> 0 \<or> BlockSize = 0 \<Longrightarrow>
     forall_cuda_exec BlockSize Async dev issue_ok num_sm len = ([], None, num_sm)"
  by (auto simp: forall_cuda_exec_def)

text \<open>A length of \<open>-5\<close> with a block size of 256, and a block size of 0 with a length of 1000.\<close>

theorem forall_cuda_exec_degenerate_witness:
  "forall_cuda_exec 256 False \<lparr>MAX_THREADS_PER_SM = 2048, multiProcessorCount = 20\<rparr> True 0 (- 5)
     = ([], None, 0) \<and>
   forall_cuda_exec 0 True \<lparr>MAX_THREADS_PER_SM = 2048, multiProcessorCount = 20\<rparr> True 20 1000
     = ([], None, 20)"
  using forall_cuda_exec_degenerate
          [of "- 5" 256 False "\<lparr>MAX_THREADS_PER_SM = 2048, multiProcessorCount = 20\<rparr>" True 0]
        forall_cuda_exec_degenerate
          [of 1000 0 True "\<lparr>MAX_THREADS_PER_SM = 2048, multiProcessorCount = 20\<rparr>" True 20]
  by simp

text \<open>
  Claim C4. For every integer selector \<open>k\<close>: when \<open>k\<close> is in \<open>[0, numPolicies)\<close> the
  multiplexer runs exactly the variant at index \<open>k\<close>, its pre-launch hook before and its
  post-launch hook after, and nothing else; when \<open>k\<close> is outside that range, negative
  selectors included, it does nothing and raises no error.
\<close>

theorem KernelPolicyGenerator_selects:
  "KernelPolicyGenerator KernelPolicyList k =
     (if 0 \<le> k \<and> k < int (length KernelPolicyList)
      then PreLaunchKernel_exec (KernelPolicyList ! nat k) @ [RunKernel (nat k)]
             @ PostLaunchKernel_exec (KernelPolicyList ! nat k)
      else [])"
  unfolding KernelPolicyGenerator_def by (subst generate_from) simp_all

text \<open>
  Three variants, the second one asynchronous: the selectors 0 and 1 run their variant
  between its hooks, the selectors 3 and \<open>-1\<close> run nothing.
\<close>

theorem KernelPolicyGenerator_selects_witness:
  "KernelPolicyGenerator [OtherStatement, CudaKernelAsync, OtherStatement] 0
     = [RunKernel 0, RegionEnd] \<and>
   KernelPolicyGenerator [OtherStatement, CudaKernelAsync, OtherStatement] 1
     = [CallbackPoolGet, SetIsDoneCallback, CudaEventRecordStart, RunKernel 1,
        CudaEventRecordStop, RegionEnd] \<and>
   KernelPolicyGenerator [OtherStatement, CudaKernelAsync, OtherStatement] 3 = [] \<and>
   KernelPolicyGenerator [OtherStatement, CudaKernelAsync, OtherStatement] (- 1) = []"
  using KernelPolicyGenerator_selects [of "[OtherStatement, CudaKernelAsync, OtherStatement]" 0]
        KernelPolicyGenerator_selects [of "[OtherStatement, CudaKernelAsync, OtherStatement]" 1]
        KernelPolicyGenerator_selects [of "[OtherStatement, CudaKernelAsync, OtherStatement]" 3]
        KernelPolicyGenerator_selects [of "[OtherStatement, CudaKernelAsync, OtherStatement]" "- 1"]
  by simp

text \<open>
  Claim C5. For every \<^verbatim>\<open>ExecPlace\<close> value that is neither \<^verbatim>\<open>HOST\<close> nor \<^verbatim>\<open>DEVICE\<close>,
  \<^verbatim>\<open>launch\<close> throws \<^verbatim>\<open>"unknown launch place!"\<close> at once: whatever the host and the
  device launch strategies are, neither is run, and the program state is as it was.
\<close>

theorem launch_unknown_place:
  "place \<noteq> HOST \<Longrightarrow> place \<noteq> DEVICE \<Longrightarrow>
     launch host_exec device_exec place team_resources body s
       = (Some (Thrown ''unknown launch place!''), s)"
  by (cases place) (simp_all add: launch_def)

text \<open>The place \<^verbatim>\<open>NUM_PLACES\<close>, with a body that would count its runs.\<close>

theorem launch_unknown_place_witness:
  "NUM_PLACES \<noteq> HOST \<and> NUM_PLACES \<noteq> DEVICE \<and>
   launch host_direct_exec host_direct_exec NUM_PLACES Resources_0 (\<lambda>ctx n. Suc n) (0::nat)
     = (Some (Thrown ''unknown launch place!''), 0)"
  using launch_unknown_place
          [of NUM_PLACES host_direct_exec host_direct_exec Resources_0 "\<lambda>ctx n. Suc n" "0::nat"]
  by simp

text \<open>
  Claim C6, as amended. The claim speaks of every invocation; the synchronisation and
  the check sit inside the guard \<^verbatim>\<open>len > 0 && BlockSize > 0\<close>. For every invocation that
  issues a kernel, that is with a positive length and a block size that is not 0 as the
  32-bit block extent it is launched with: the launch-issue check follows the issue
  immediately, whatever \<^verbatim>\<open>Async\<close> is; when the check passes, the launch is recorded and
  then, with \<^verbatim>\<open>Async\<close> false, the stream is synchronised as the last step before the call
  returns, while with \<^verbatim>\<open>Async\<close> true there is no wait; when the check fails, the call is
  fatal there and nothing follows.
\<close>

theorem forall_cuda_exec_issue:
  assumes "0 < len" and "(ucast BlockSize :: uint) \<noteq> 0"
  shows "\<exists>gridSize.
           fst (getGridDim dev num_sm (of_int len) (dim3_of_size_t BlockSize)) = Inr gridSize \<and>
           fst (forall_cuda_exec BlockSize Async dev issue_ok num_sm len) =
             [KernelIssue gridSize (dim3_of_size_t BlockSize) len, PeekAtLastError] @
             (if issue_ok then [Launch] @ (if Async then [] else [Synchronize]) else []) \<and>
           fst (snd (forall_cuda_exec BlockSize Async dev issue_ok num_sm len)) =
             (if issue_ok then None else Some LaunchIssueFailure)"
proof -
  have B: "0 < BlockSize" using assms(2) by (auto simp: word_gt_0)
  have "dim_x (dim3_of_size_t BlockSize) * dim_y (dim3_of_size_t BlockSize)
          * dim_z (dim3_of_size_t BlockSize) \<noteq> 0"
    using assms(2) by (simp add: dim3_of_size_t_def)
  from getGridDim_Inr[OF this, of dev num_sm "of_int len"]
  obtain g where g: "fst (getGridDim dev num_sm (of_int len) (dim3_of_size_t BlockSize)) = Inr g"
    by blast
  then obtain c where gc: "getGridDim dev num_sm (of_int len) (dim3_of_size_t BlockSize) = (Inr g, c)"
    by (cases "getGridDim dev num_sm (of_int len) (dim3_of_size_t BlockSize)") simp
  show ?thesis
    using assms(1) B g gc by (simp add: forall_cuda_exec_def)
qed

text \<open>A synchronous launch over 1000 positions with blocks of 256 threads.\<close>

theorem forall_cuda_exec_issue_witness:
  "forall_cuda_exec 256 False \<lparr>MAX_THREADS_PER_SM = 2048, multiProcessorCount = 20\<rparr> True 0 1000
     = ([KernelIssue \<lparr>dim_x = 4, dim_y = 1, dim_z = 1\<rparr> \<lparr>dim_x = 256, dim_y = 1, dim_z = 1\<rparr> 1000,
         PeekAtLastError, Launch, Synchronize], None, 20)"
  using forall_cuda_exec_issue
          [of 1000 256 "\<lparr>MAX_THREADS_PER_SM = 2048, multiProcessorCount = 20\<rparr>" 0 False True]
  by (simp add: forall_cuda_exec_def getGridDim_def dim3_of_size_t_def Let_def)

text \<open>
  The claim as it is stated fails: with \<^verbatim>\<open>Async\<close> false and an empty iterable nothing is
  issued and the stream is not synchronised. Neither is it when the block size is
  \<open>2\<^sup>3\<^sup>2\<close>, which passes the guard and is 0 as a block extent, or when the device refuses
  the launch.
\<close>

theorem forall_cuda_exec_no_sync_counterexample:
  "forall_cuda_exec 256 False \<lparr>MAX_THREADS_PER_SM = 2048, multiProcessorCount = 20\<rparr> True 20 0
     = ([], None, 20) \<and>
   forall_cuda_exec 4294967296 False \<lparr>MAX_THREADS_PER_SM = 2048, multiProcessorCount = 20\<rparr>
       True 20 1000
     = ([], Some DivisionByZero, 20) \<and>
   forall_cuda_exec 256 False \<lparr>MAX_THREADS_PER_SM = 2048, multiProcessorCount = 20\<rparr> False 20 1000
     = ([KernelIssue \<lparr>dim_x = 4, dim_y = 1, dim_z = 1\<rparr> \<lparr>dim_x = 256, dim_y = 1, dim_z = 1\<rparr> 1000,
         PeekAtLastError], Some LaunchIssueFailure, 20)"
  by (simp add: forall_cuda_exec_def getGridDim_def dim3_of_size_t_def Let_def)

text \<open>
  Claim C7. For every resource descriptor, \<^verbatim>\<open>launch\<close> hands to the launch strategy of the
  place a context whose teams, threads and lanes are those of the descriptor, unmodified;
  with the host strategy that calls the body directly, the body reads back exactly these
  values. In particular the descriptor made of \<^verbatim>\<open>Teams(2,3,4)\<close> and \<^verbatim>\<open>Threads(8,1,1)\<close> is
  read back as teams \<open>(2, 3, 4)\<close>, threads \<open>(8, 1, 1)\<close> and the default lanes 0.
\<close>

theorem launch_round_trip:
  "launch host_exec device_exec HOST res body s
     = (None, host_exec (LaunchContext_ctor res HOST) body s) \<and>
   launch host_exec device_exec DEVICE res body s
     = (None, device_exec (LaunchContext_ctor res DEVICE) body s) \<and>
   teams (LaunchContext_ctor res place) = teams res \<and>
   threads (LaunchContext_ctor res place) = threads res \<and>
   lanes (LaunchContext_ctor res place) = lanes res \<and>
   launch host_direct_exec device_exec' HOST res (\<lambda>ctx _. Some (teams ctx, threads ctx, lanes ctx)) None
     = (None, Some (teams res, threads res, lanes res)) \<and>
   launch host_direct_exec device_exec'' HOST (Resources_2 (Teams_3 2 3 4) (Threads_3 8 1 1))
       (\<lambda>ctx _. Some (teams_value (teams ctx), threads_value (threads ctx), lanes_value (lanes ctx)))
       None
     = (None, Some ([2, 3, 4], [8, 1, 1], 0))"
  by (simp add: launch_def LaunchContext_ctor_def host_direct_exec_def Resources_2_def
        Teams_3_def Threads_3_def Lanes_0_def)

text \<open>
  Claim C8. The body of \<^verbatim>\<open>teamSync\<close> is empty in host code, which is what the body of a
  launch at the host place runs. For every context, for every program state and for any
  number of calls, \<^verbatim>\<open>teamSync\<close> in host code returns (it never blocks, whatever the
  hardware barrier would do) and leaves the context and the program state as they were;
  in particular so does \<^verbatim>\<open>teamSync\<close> on every context whose execution place is the host.
\<close>

theorem teamSync_host_noop:
  "teamSync_times n False syncthreads (ctx, s) = Some (ctx, s) \<and>
   (exec_place ctx = HOST \<longrightarrow>
      teamSync_times n (device_code_at (exec_place ctx)) syncthreads (ctx, s) = Some (ctx, s))"
proof -
  have host: "teamSync_times n False syncthreads (ctx, s) = Some (ctx, s)"
    by (induction n) (simp_all add: teamSync_def)
  then show ?thesis by (simp add: device_code_at_def)
qed

text \<open>
  Five calls on a host-place context, with a barrier that would block for ever and a
  counter as the program state.
\<close>

theorem teamSync_host_noop_witness:
  "teamSync_times 5 False (\<lambda>_. None) (LaunchContext_ctor Resources_0 HOST, 7::nat)
     = Some (LaunchContext_ctor Resources_0 HOST, 7) \<and>
   teamSync_times 5 (device_code_at (exec_place (LaunchContext_ctor Resources_0 HOST)))
       (\<lambda>_. None) (LaunchContext_ctor Resources_0 HOST, 7::nat)
     = Some (LaunchContext_ctor Resources_0 HOST, 7)"
proof -
  have h: "exec_place (LaunchContext_ctor Resources_0 HOST) = HOST"
    by (simp add: LaunchContext_ctor_def)
  show ?thesis
    using teamSync_host_noop
      [of 5 "\<lambda>_. None" "LaunchContext_ctor Resources_0 HOST" "7::nat"] h
    by simp
qed



text \<open>
  Claim C10. Under the OpenMP segment-iteration policy, every segment of a hybrid index
  set whose type tag is neither the range type nor the unstructured type is skipped: the
  body is not called for it and no error is raised. A range segment calls the body on
  its indices and an unstructured segment on the entries of its index array, so the
  calls of the whole operation are exactly those of the recognised segments.
\<close>

theorem forall_HybridISet_skips:
  "(\<forall>seg. \<not> recognized seg \<longrightarrow> forall_segment seg = []) \<and>
   forall_segment (Range_seg ibegin iend) = [ibegin..iend - 1] \<and>
   forall_segment (Unstructured_seg idx) = idx \<and>
   forall_HybridISet segs = concat (map forall_segment (filter recognized segs)) \<and>
   forall_HybridISet segs = forall_HybridISet (filter recognized segs)"
proof -
  have skip: "\<not> recognized seg \<Longrightarrow> forall_segment seg = []" for seg
    by (cases seg) simp_all
  have flt: "concat (map forall_segment xs) = concat (map forall_segment (filter recognized xs))"
    for xs by (induction xs) (simp_all add: skip)
  have "forall_UnstructuredISet idx = idx"
    unfolding forall_UnstructuredISet_def by (rule map_nth)
  then show ?thesis
    using skip flt[of segs] by (simp add: forall_HybridISet_concat forall_RangeISet_def)
qed

text \<open>A range, a strided range, an unstructured segment and a segment with an unknown tag.\<close>

theorem forall_HybridISet_skips_witness:
  "forall_HybridISet [Range_seg 0 3, RangeStride_seg 0 10 2, Unstructured_seg [7, 5], Other_seg 9]
     = [0, 1, 2, 7, 5] \<and>
   forall_segment (RangeStride_seg 0 10 2) = [] \<and> forall_segment (Other_seg 9) = []"
proof -
  have "[0..(2::int)] = [0, 1, 2]" by (simp add: upto.simps)
  then show ?thesis
    using forall_HybridISet_skips
      [of 0 3 "[7, 5]" "[Range_seg 0 3, RangeStride_seg 0 10 2, Unstructured_seg [7, 5], Other_seg 9]"]
    by simp
qed

end
